theory Spec2Isabelle
  imports Main
begin

section \<open>The overlay widget of the Shotgun model\<close>

text \<open>
  A shallow embedding of \<^verbatim>\<open>python/shotgun_model/overlaywidget.py\<close>: the class
  \<^verbatim>\<open>OverlayWidget\<close> and its \<^verbatim>\<open>ResizeEventFilter\<close>. The attributes of the widget
  are the fields of a record, every method takes the widget and returns it updated. The
  Qt toolkit is outside the file: each toolkit call the methods make is modelled by the
  one attribute it is documented to set (\<^verbatim>\<open>setVisible\<close>, \<^verbatim>\<open>QTimer.start\<close>,
  \<^verbatim>\<open>QTimer.stop\<close>, \<^verbatim>\<open>resize\<close>) or is recorded (\<^verbatim>\<open>repaint\<close> in a counter, the
  calls on the painter in a trace).
\<close>

subsection \<open>Data\<close>

type_synonym qsize = "int \<times> int"

record qpixmap =
  pixmap_source :: string
  pixmap_width :: int
  pixmap_height :: int

datatype qevent_type = Resize | OtherType nat

text \<open>
  A resize event carries the new size of the widget it is sent to. The filter reads the
  type of an event and nothing else.
\<close>

datatype qevent = QResizeEvent qsize | QOtherEvent nat

fun event_type :: "qevent \<Rightarrow> qevent_type" where
  "event_type (QResizeEvent sz) = Resize"
| "event_type (QOtherEvent k) = OtherType k"

datatype py_error = AttributeError

datatype text_flag = AlignCenter | AlignVCenter | TextWordWrap

datatype painter_call =
    Begin
  | SetRenderHintAntialiasing
  | SetBrush string
  | SetPen string "int option"
  | DrawRect int int int int
  | Translate int int
  | DrawPixmap int int qpixmap
  | DrawArc "int \<times> int \<times> int \<times> int" int int
  | DrawText "int \<times> int \<times> int \<times> int" "text_flag list" "string option"
  | End

text \<open>
  The widget the overlay is laid over, as far as the overlay and its filter meet it: its
  size, whether it is shown, whether the toolkit still owes it a resize event (Qt keeps
  the resize event of a hidden widget back until the widget is shown), and the events
  that reached its own handler, oldest first.
\<close>

record parent_widget =
  pw_size :: qsize
  pw_visible :: bool
  pw_pending_resize :: bool
  pw_received :: "qevent list"

text \<open>
  The attributes of \<^verbatim>\<open>OverlayWidget\<close>. \<open>parent\<close> is the widget \<^verbatim>\<open>self._parent\<close>
  refers to; \<open>widget_size\<close>, \<open>visible\<close> and \<open>transparent_for_mouse\<close>
  are the state of the \<^verbatim>\<open>QWidget\<close> base class, \<open>timer_active\<close> and
  \<open>timer_interval\<close> that of \<^verbatim>\<open>self._timer\<close>, and \<open>repaints\<close> counts the calls of
  \<^verbatim>\<open>self.repaint()\<close>.
\<close>

record overlay =
  parent :: parent_widget
  widget_size :: qsize
  visible :: bool
  transparent_for_mouse :: bool
  mode :: int
  timer_active :: bool
  timer_interval :: int
  spin_angle :: int
  message_pixmap :: "qpixmap option"
  message :: "string option"
  sg_icon :: qpixmap
  repaints :: nat

definition MODE_OFF :: int where "MODE_OFF = 0"
definition MODE_SPIN :: int where "MODE_SPIN = 1"
definition MODE_ERROR :: int where "MODE_ERROR = 2"
definition MODE_INFO_TEXT :: int where "MODE_INFO_TEXT = 3"
definition MODE_INFO_PIXMAP :: int where "MODE_INFO_PIXMAP = 4"

subsection \<open>The toolkit calls the methods make\<close>

definition setVisible :: "bool \<Rightarrow> overlay \<Rightarrow> overlay" where
  "setVisible b s = s\<lparr>visible := b\<rparr>"

definition timer_start :: "int \<Rightarrow> overlay \<Rightarrow> overlay" where
  "timer_start msec s = s\<lparr>timer_active := True, timer_interval := msec\<rparr>"

definition timer_stop :: "overlay \<Rightarrow> overlay" where
  "timer_stop s = s\<lparr>timer_active := False\<rparr>"

definition repaint :: "overlay \<Rightarrow> overlay" where
  "repaint s = s\<lparr>repaints := Suc (repaints s)\<rparr>"

definition resize :: "qsize \<Rightarrow> overlay \<Rightarrow> overlay" where
  "resize sz s = s\<lparr>widget_size := sz\<rparr>"

subsection \<open>\<^verbatim>\<open>OverlayWidget\<close>\<close>

text \<open>
  \<^verbatim>\<open>__init__\<close>. The parent, the size the toolkit gives the new widget and the size
  of the icon loaded from the resource file are parameters. A new \<^verbatim>\<open>QTimer\<close> is
  inactive with interval 0.
\<close>

definition sg_logo :: string where
  "sg_logo = '':/tk_framework_shotgunutils.shotgun_model/sg_logo.png''"

definition OverlayWidget_init :: "parent_widget \<Rightarrow> qsize \<Rightarrow> qsize \<Rightarrow> overlay" where
  "OverlayWidget_init parent_arg wsize isize =
     \<lparr>parent = parent_arg, widget_size = wsize,
      visible = False, transparent_for_mouse = True, mode = MODE_OFF,
      timer_active = False, timer_interval = 0, spin_angle = 0,
      message_pixmap = None, message = None,
      sg_icon = \<lparr>pixmap_source = sg_logo, pixmap_width = fst isize,
                  pixmap_height = snd isize\<rparr>,
      repaints = 0\<rparr>"

definition on_parent_resized :: "overlay \<Rightarrow> overlay" where
  "on_parent_resized s = resize (pw_size (parent s)) s"

definition on_animation :: "overlay \<Rightarrow> overlay" where
  "on_animation s =
     (let s1 = s\<lparr>spin_angle := spin_angle s + 1\<rparr>;
          s2 = (if spin_angle s1 = 90 then s1\<lparr>spin_angle := 0\<rparr> else s1)
      in repaint s2)"

text \<open>
  \<^verbatim>\<open>paintEvent\<close> returns the widget, the calls it made on the painter, in order, and
  the exception it left with, if any; its argument \<^verbatim>\<open>event\<close> is never read and is
  left out. The painter's device is the widget, so the device's
  width and height are the widget's. \<^verbatim>\<open>/\<close> on two Python 2 integers is floor division,
  which is \<open>div\<close> on \<open>int\<close>. The \<^verbatim>\<open>finally\<close> clause ends the painter on every path
  that began it. A pixmap of \<^verbatim>\<open>None\<close> has no \<^verbatim>\<open>width\<close> (AttributeError, raised while
  the arguments of \<^verbatim>\<open>translate\<close> are evaluated). \<^verbatim>\<open>drawText\<close> is called with
  \<^verbatim>\<open>self._message\<close> whatever it holds, and the trace records the call with that
  argument.
\<close>

definition backdrop :: "overlay \<Rightarrow> painter_call list" where
  "backdrop s =
     [Begin, SetRenderHintAntialiasing, SetBrush ''#1B1B1B'', SetPen ''#1B1B1B'' None,
      DrawRect 0 0 (fst (widget_size s)) (snd (widget_size s))]"

definition start_angle :: "overlay \<Rightarrow> int" where
  "start_angle s = (0 + spin_angle s) * 4 * 16"

definition span_angle :: int where
  "span_angle = 340 * 16"

definition text_flags :: "text_flag list" where
  "text_flags = [AlignCenter, AlignVCenter, TextWordWrap]"

definition draw_message :: "string \<Rightarrow> overlay \<Rightarrow> painter_call list \<times> py_error option" where
  "draw_message colour s =
     (let text_rect = (0, 0, fst (widget_size s), snd (widget_size s))
      in ([SetPen colour None, DrawText text_rect text_flags (message s)], None))"

definition paint_mode :: "overlay \<Rightarrow> painter_call list \<times> py_error option" where
  "paint_mode s =
     (if mode s = MODE_SPIN then
        ([Translate (fst (widget_size s) div 2 - 40) (snd (widget_size s) div 2 - 40),
          SetPen ''#424141'' (Some 3),
          DrawPixmap 8 24 (sg_icon s),
          DrawArc (0, 0, 80, 80) (start_angle s) span_angle], None)
      else if mode s = MODE_INFO_TEXT then draw_message ''#888888'' s
      else if mode s = MODE_ERROR then draw_message ''#C8534A'' s
      else if mode s = MODE_INFO_PIXMAP then
        (case message_pixmap s of
           None \<Rightarrow> ([], Some AttributeError)
         | Some pm \<Rightarrow>
             ([Translate (fst (widget_size s) div 2 - pixmap_width pm div 2)
                         (snd (widget_size s) div 2 - pixmap_height pm div 2),
               DrawPixmap 0 0 pm], None))
      else ([], None))"

definition paintEvent :: "overlay \<Rightarrow> overlay \<times> painter_call list \<times> py_error option" where
  "paintEvent s =
     (if mode s = MODE_OFF then (s, [], None)
      else (case paint_mode s of (calls, err) \<Rightarrow> (s, backdrop s @ calls @ [End], err)))"

definition start_spin :: "overlay \<Rightarrow> overlay" where
  "start_spin s = (setVisible True (timer_start 40 s))\<lparr>mode := MODE_SPIN\<rparr>"

definition show_error_message :: "string option \<Rightarrow> overlay \<Rightarrow> overlay" where
  "show_error_message msg s =
     repaint ((setVisible True (timer_stop s))\<lparr>message := msg, mode := MODE_ERROR\<rparr>)"

definition show_message :: "string option \<Rightarrow> overlay \<Rightarrow> overlay" where
  "show_message msg s =
     repaint ((setVisible True (timer_stop s))\<lparr>message := msg, mode := MODE_INFO_TEXT\<rparr>)"

definition show_message_pixmap :: "qpixmap option \<Rightarrow> overlay \<Rightarrow> overlay" where
  "show_message_pixmap pixmap s =
     repaint ((setVisible True (timer_stop s))
                \<lparr>message_pixmap := pixmap, mode := MODE_INFO_PIXMAP\<rparr>)"

definition hide :: "overlay \<Rightarrow> overlay" where
  "hide s = setVisible False ((timer_stop s)\<lparr>mode := MODE_OFF\<rparr>)"

subsection \<open>\<^verbatim>\<open>ResizeEventFilter\<close>\<close>

text \<open>
  A signal is the list of the slots connected to it, and emitting it calls them in order.
  \<^verbatim>\<open>eventFilter\<close> returns the state the slots leave and the flag it hands back to the
  toolkit (\<^verbatim>\<open>True\<close> would stop the event there); its argument \<^verbatim>\<open>obj\<close> is never
  read and is left out. \<^verbatim>\<open>__init__\<close> connects the one slot \<^verbatim>\<open>_on_parent_resized\<close>.
\<close>

fun emit :: "(overlay \<Rightarrow> overlay) list \<Rightarrow> overlay \<Rightarrow> overlay" where
  "emit [] s = s"
| "emit (slot # slots) s = emit slots (slot s)"

definition eventFilter :: "(overlay \<Rightarrow> overlay) list \<Rightarrow> qevent \<Rightarrow> overlay \<Rightarrow> overlay \<times> bool" where
  "eventFilter resized event s =
     ((if event_type event = Resize then emit resized s else s), False)"

definition resized_slots :: "(overlay \<Rightarrow> overlay) list" where
  "resized_slots = [on_parent_resized]"

subsection \<open>What the toolkit does with the widget\<close>

text \<open>
  The event loop, as Qt documents it. An event sent to the parent goes through the
  installed filter first and reaches the parent's own handler unless the filter returned
  \<^verbatim>\<open>True\<close>. A timeout of the timer calls the connected slot \<^verbatim>\<open>on_animation\<close> while
  the timer is active, and a paint request calls \<^verbatim>\<open>paintEvent\<close>.

  A resize of the parent to the size it already has does nothing. A resize to another
  size sets the parent's size; the resize event is sent at once when the parent is shown,
  and is kept back when the parent is hidden. Showing a hidden parent sends the resize
  event that was kept back, with the size the parent has by then. The events of other
  types that come with a show or a hide are left to the step \<open>ParentEvent\<close>.
\<close>

definition received :: "qevent \<Rightarrow> overlay \<Rightarrow> overlay" where
  "received event s = s\<lparr>parent := (parent s)\<lparr>pw_received := pw_received (parent s) @ [event]\<rparr>\<rparr>"

definition send_to_parent :: "qevent \<Rightarrow> overlay \<Rightarrow> overlay" where
  "send_to_parent event s =
     (case eventFilter resized_slots event s of
        (s', consumed) \<Rightarrow> if consumed then s' else received event s')"

definition parent_resize :: "qsize \<Rightarrow> overlay \<Rightarrow> overlay" where
  "parent_resize sz s =
     (if sz = pw_size (parent s) then s
      else if pw_visible (parent s) then
        send_to_parent (QResizeEvent sz) (s\<lparr>parent := (parent s)\<lparr>pw_size := sz\<rparr>\<rparr>)
      else s\<lparr>parent := (parent s)\<lparr>pw_size := sz, pw_pending_resize := True\<rparr>\<rparr>)"

definition parent_show :: "overlay \<Rightarrow> overlay" where
  "parent_show s =
     (if pw_visible (parent s) then s
      else if pw_pending_resize (parent s) then
        send_to_parent (QResizeEvent (pw_size (parent s)))
          (s\<lparr>parent := (parent s)\<lparr>pw_visible := True, pw_pending_resize := False\<rparr>\<rparr>)
      else s\<lparr>parent := (parent s)\<lparr>pw_visible := True\<rparr>\<rparr>)"

definition parent_hide :: "overlay \<Rightarrow> overlay" where
  "parent_hide s = s\<lparr>parent := (parent s)\<lparr>pw_visible := False\<rparr>\<rparr>"

text \<open>
  Two parents to construct an overlay on: one that is on the screen and has had its
  resize event, and a new one that has never been shown, to which Qt owes the first
  resize event.
\<close>

definition shown_parent :: "qsize \<Rightarrow> parent_widget" where
  "shown_parent sz =
     \<lparr>pw_size = sz, pw_visible = True, pw_pending_resize = False, pw_received = []\<rparr>"


definition timeout :: "overlay \<Rightarrow> overlay" where
  "timeout s = (if timer_active s then on_animation s else s)"

fun ticks :: "nat \<Rightarrow> overlay \<Rightarrow> overlay" where
  "ticks 0 s = s"
| "ticks (Suc n) s = ticks n (timeout s)"

datatype call =
    StartSpin
  | ShowErrorMessage "string option"
  | ShowMessage "string option"
  | ShowMessagePixmap "qpixmap option"
  | Hide

fun do_call :: "call \<Rightarrow> overlay \<Rightarrow> overlay" where
  "do_call StartSpin s = start_spin s"
| "do_call (ShowErrorMessage msg) s = show_error_message msg s"
| "do_call (ShowMessage msg) s = show_message msg s"
| "do_call (ShowMessagePixmap pixmap) s = show_message_pixmap pixmap s"
| "do_call Hide s = hide s"

datatype event =
    Call call
  | Timeout
  | Paint
  | ParentResize qsize
  | ParentShow
  | ParentHide
  | ParentEvent nat

fun step :: "event \<Rightarrow> overlay \<Rightarrow> overlay" where
  "step (Call c) s = do_call c s"
| "step Timeout s = timeout s"
| "step Paint s = fst (paintEvent s)"
| "step (ParentResize sz) s = parent_resize sz s"
| "step ParentShow s = parent_show s"
| "step ParentHide s = parent_hide s"
| "step (ParentEvent k) s = send_to_parent (QOtherEvent k) s"

fun run :: "event list \<Rightarrow> overlay \<Rightarrow> overlay" where
  "run [] s = s"
| "run (e # es) s = run es (step e s)"

fun states_after :: "call list \<Rightarrow> overlay \<Rightarrow> overlay list" where
  "states_after [] s = []"
| "states_after (c # cs) s = do_call c s # states_after cs (do_call c s)"

subsection \<open>The mode invariant\<close>

definition all_modes :: "int list" where
  "all_modes = [MODE_OFF, MODE_SPIN, MODE_ERROR, MODE_INFO_TEXT, MODE_INFO_PIXMAP]"

definition active_modes :: "overlay \<Rightarrow> int list" where
  "active_modes s = filter (\<lambda>m. mode s = m) all_modes"

definition mode_invariant :: "overlay \<Rightarrow> bool" where
  "mode_invariant s \<longleftrightarrow>
     length (active_modes s) = 1 \<and> timer_active s = (mode s = MODE_SPIN)"

text \<open>
  The invariant of the states the widget can reach: the mode is one of the five
  constants, the timer runs exactly in \<open>MODE_SPIN\<close>, the widget is visible exactly
  outside \<open>MODE_OFF\<close>, and the spin angle lies in \<open>[0, 90)\<close>.
\<close>

definition reachable_invariant :: "overlay \<Rightarrow> bool" where
  "reachable_invariant s \<longleftrightarrow>
     mode s \<in> set all_modes \<and> timer_active s = (mode s = MODE_SPIN) \<and>
     visible s = (mode s \<noteq> MODE_OFF) \<and> 0 \<le> spin_angle s \<and> spin_angle s < 90"

subsection \<open>Reading a painter trace\<close>

fun drawn_texts :: "painter_call list \<Rightarrow> string option list" where
  "drawn_texts [] = []"
| "drawn_texts (DrawText r f txt # cs) = txt # drawn_texts cs"
| "drawn_texts (c # cs) = drawn_texts cs"

fun drawn_arcs :: "painter_call list \<Rightarrow> (int \<times> int) list" where
  "drawn_arcs [] = []"
| "drawn_arcs (DrawArc r start span # cs) = (start, span) # drawn_arcs cs"
| "drawn_arcs (c # cs) = drawn_arcs cs"

definition painted :: "overlay \<Rightarrow> painter_call list" where
  "painted s = fst (snd (paintEvent s))"

text \<open>\<^verbatim>\<open>drawArc\<close> takes its angles in sixteenths of a degree: a full circle is 5760.\<close>

definition full_circle :: int where
  "full_circle = 360 * 16"

section \<open>Properties\<close>

subsection \<open>Unfolding rules and the reachable states\<close>

lemmas MODE_defs = MODE_OFF_def MODE_SPIN_def MODE_ERROR_def MODE_INFO_TEXT_def
  MODE_INFO_PIXMAP_def

lemmas toolkit_defs = setVisible_def timer_start_def timer_stop_def repaint_def resize_def

lemmas method_defs = start_spin_def show_error_message_def show_message_def
  show_message_pixmap_def hide_def

lemma mode_invariant_do_call: "mode_invariant (do_call c s)"
  by (cases c)
     (simp_all add: mode_invariant_def active_modes_def all_modes_def method_defs
        toolkit_defs MODE_defs)

lemma reachable_invariant_init: "reachable_invariant (OverlayWidget_init p w i)"
  by (simp add: reachable_invariant_def OverlayWidget_init_def all_modes_def MODE_defs)

lemma reachable_invariant_do_call: "reachable_invariant s \<Longrightarrow> reachable_invariant (do_call c s)"
  by (cases c)
     (simp_all add: reachable_invariant_def all_modes_def method_defs toolkit_defs MODE_defs)

lemma reachable_invariant_on_animation:
  "reachable_invariant s \<Longrightarrow> reachable_invariant (on_animation s)"
  by (simp add: reachable_invariant_def on_animation_def Let_def toolkit_defs)

lemma paintEvent_state: "fst (paintEvent s) = s"
  by (simp add: paintEvent_def split: prod.splits)

lemma eventFilter_not_consumed: "snd (eventFilter slots ev s) = False"
  by (simp add: eventFilter_def)

lemma send_to_parent_fields:
  "mode (send_to_parent ev s) = mode s"
  "timer_active (send_to_parent ev s) = timer_active s"
  "visible (send_to_parent ev s) = visible s"
  "spin_angle (send_to_parent ev s) = spin_angle s"
  by (cases ev; simp add: send_to_parent_def received_def eventFilter_def resized_slots_def
        on_parent_resized_def resize_def)+

lemma reachable_invariant_step: "reachable_invariant s \<Longrightarrow> reachable_invariant (step e s)"
proof (cases e)
  case (Call c)
  assume "reachable_invariant s"
  with Call show ?thesis by (simp add: reachable_invariant_do_call)
next
  case Timeout
  assume "reachable_invariant s"
  with Timeout show ?thesis by (simp add: timeout_def reachable_invariant_on_animation)
next
  case Paint
  assume "reachable_invariant s"
  with Paint show ?thesis by (simp add: paintEvent_state)
next
  case (ParentResize sz)
  assume "reachable_invariant s"
  with ParentResize show ?thesis
    by (simp add: reachable_invariant_def parent_resize_def send_to_parent_fields)
next
  case ParentShow
  assume "reachable_invariant s"
  with ParentShow show ?thesis
    by (simp add: reachable_invariant_def parent_show_def send_to_parent_fields)
next
  case ParentHide
  assume "reachable_invariant s"
  with ParentHide show ?thesis
    by (simp add: reachable_invariant_def parent_hide_def)
next
  case (ParentEvent k)
  assume "reachable_invariant s"
  with ParentEvent show ?thesis
    by (simp add: reachable_invariant_def send_to_parent_fields)
qed

lemma reachable_invariant_run: "reachable_invariant s \<Longrightarrow> reachable_invariant (run es s)"
  by (induction es arbitrary: s) (simp_all add: reachable_invariant_step)

lemma reachable_invariant_reached: "reachable_invariant (run es (OverlayWidget_init p w i))"
  by (simp add: reachable_invariant_run reachable_invariant_init)

lemma spin_angle_on_animation:
  "0 \<le> spin_angle s \<Longrightarrow> spin_angle s < 90 \<Longrightarrow>
   spin_angle (on_animation s) = (spin_angle s + 1) mod 90"
  by (simp add: on_animation_def Let_def repaint_def)

lemma timer_active_on_animation: "timer_active (on_animation s) = timer_active s"
  by (simp add: on_animation_def Let_def repaint_def)

lemma spin_angle_ticks:
  "timer_active s \<Longrightarrow> 0 \<le> spin_angle s \<Longrightarrow> spin_angle s < 90 \<Longrightarrow>
   spin_angle (ticks n s) = (spin_angle s + int n) mod 90"
proof (induction n arbitrary: s)
  case 0
  then show ?case by simp
next
  case (Suc n)
  have a: "spin_angle (on_animation s) = (spin_angle s + 1) mod 90"
    using Suc.prems by (simp add: spin_angle_on_animation)
  have "spin_angle (ticks n (on_animation s)) = (spin_angle (on_animation s) + int n) mod 90"
    using Suc.prems by (intro Suc.IH) (simp_all add: timer_active_on_animation a)
  moreover have "((spin_angle s + 1) mod 90 + int n) mod 90 = (spin_angle s + int (Suc n)) mod 90"
    by (simp add: mod_simps algebra_simps)
  ultimately show ?case using Suc.prems
    by (simp add: timeout_def a)
qed

lemma painted_text_mode:
  "mode s = MODE_ERROR \<or> mode s = MODE_INFO_TEXT \<Longrightarrow> message s = Some txt \<Longrightarrow>
   drawn_texts (painted s) = [Some txt]"
  by (auto simp add: painted_def paintEvent_def paint_mode_def draw_message_def backdrop_def
        MODE_defs)

lemma snd_paintEvent:
  "snd (paintEvent s) =
     (if mode s = MODE_OFF then ([], None)
      else (backdrop s @ fst (paint_mode s) @ [End], snd (paint_mode s)))"
  by (simp add: paintEvent_def split: prod.splits)

lemma paint_mode_message_pixmap:
  "mode s \<noteq> MODE_INFO_PIXMAP \<Longrightarrow> paint_mode (s\<lparr>message_pixmap := p\<rparr>) = paint_mode s"
  by (simp add: paint_mode_def draw_message_def start_angle_def Let_def split: option.splits)

lemma paint_mode_message:
  "mode s \<noteq> MODE_ERROR \<Longrightarrow> mode s \<noteq> MODE_INFO_TEXT \<Longrightarrow>
   paint_mode (s\<lparr>message := m\<rparr>) = paint_mode s"
  by (simp add: paint_mode_def start_angle_def split: option.splits)

subsection \<open>The claims\<close>

text \<open>
  C1: whatever the state and whatever the sequence of calls of \<^verbatim>\<open>start_spin\<close>,
  \<^verbatim>\<open>show_error_message\<close>, \<^verbatim>\<open>show_message\<close>, \<^verbatim>\<open>show_message_pixmap\<close> and \<^verbatim>\<open>hide\<close>,
  the state after each call has exactly one of the five modes active and its timer runs
  if and only if the mode is \<open>MODE_SPIN\<close>.
\<close>

theorem mode_invariant_after_each_call:
  "list_all mode_invariant (states_after calls s)"
  by (induction calls arbitrary: s) (simp_all add: mode_invariant_do_call)

text \<open>
  C2: for every text that is not \<^verbatim>\<open>None\<close>, \<^verbatim>\<open>show_error_message\<close> leaves the mode
  \<open>MODE_ERROR\<close>, the message equal to the text whatever it was before, the timer
  stopped and the widget visible, and calls \<^verbatim>\<open>repaint\<close> once before it returns;
  \<^verbatim>\<open>show_message\<close> does the same with \<open>MODE_INFO_TEXT\<close>, and
  \<^verbatim>\<open>show_message_pixmap\<close> with \<open>MODE_INFO_PIXMAP\<close> and the pixmap attribute.
\<close>

theorem show_calls_effect:
  "mode (show_error_message (Some txt) s) = MODE_ERROR \<and>
   message (show_error_message (Some txt) s) = Some txt \<and>
   \<not> timer_active (show_error_message (Some txt) s) \<and>
   visible (show_error_message (Some txt) s) \<and>
   repaints (show_error_message (Some txt) s) = Suc (repaints s) \<and>
   mode (show_message (Some txt) s) = MODE_INFO_TEXT \<and>
   message (show_message (Some txt) s) = Some txt \<and>
   \<not> timer_active (show_message (Some txt) s) \<and>
   visible (show_message (Some txt) s) \<and>
   repaints (show_message (Some txt) s) = Suc (repaints s) \<and>
   mode (show_message_pixmap (Some pix) s) = MODE_INFO_PIXMAP \<and>
   message_pixmap (show_message_pixmap (Some pix) s) = Some pix \<and>
   \<not> timer_active (show_message_pixmap (Some pix) s) \<and>
   visible (show_message_pixmap (Some pix) s) \<and>
   repaints (show_message_pixmap (Some pix) s) = Suc (repaints s)"
  by (simp add: method_defs toolkit_defs)




text \<open>
  C4, as stated, fails: \<^verbatim>\<open>start_spin\<close> does not set the angle back to 0. After a first
  session of five ticks and a \<^verbatim>\<open>hide\<close>, a second \<^verbatim>\<open>start_spin\<close> and three ticks
  leave the angle at 8, not at \<open>3 mod 90\<close>.
\<close>

theorem start_spin_ticks_counterexample:
  "spin_angle (ticks 3 (start_spin (run [Call StartSpin, Timeout, Timeout, Timeout, Timeout,
       Timeout, Call Hide] (OverlayWidget_init (shown_parent (640, 480)) (100, 30) (64, 32))))) \<noteq> 3 mod 90"
  by (simp add: OverlayWidget_init_def method_defs toolkit_defs timeout_def on_animation_def
        Let_def numeral_3_eq_3)

text \<open>
  C4, amended: in every state the widget can reach after its construction,
  \<^verbatim>\<open>start_spin\<close> and then \<open>N\<close> timeouts of the timer leave the spin angle at
  \<open>(a + N) mod 90\<close>, where \<open>a\<close> is the angle before the call; for a widget that has
  just been constructed this is \<open>N mod 90\<close>.
\<close>

theorem start_spin_ticks_from_angle:
  "spin_angle (ticks N (start_spin (run es (OverlayWidget_init p w i)))) =
     (spin_angle (run es (OverlayWidget_init p w i)) + int N) mod 90 \<and>
   spin_angle (ticks N (start_spin (OverlayWidget_init p w i))) = int N mod 90"
proof -
  have r: "reachable_invariant (run es' (OverlayWidget_init p w i))" for es'
    by (rule reachable_invariant_reached)
  have t: "spin_angle (ticks N (start_spin s)) = (spin_angle s + int N) mod 90"
    if "reachable_invariant s" for s
  proof -
    have "spin_angle (ticks N (start_spin s)) = (spin_angle (start_spin s) + int N) mod 90"
      using that
      by (intro spin_angle_ticks) (simp_all add: reachable_invariant_def start_spin_def toolkit_defs)
    then show ?thesis by (simp add: start_spin_def toolkit_defs)
  qed
  have "spin_angle (OverlayWidget_init p w i) = 0"
    by (simp add: OverlayWidget_init_def)
  with t [OF r [of es]] t [OF r [of "[]"]] show ?thesis by simp
qed

text \<open>
  C5: after \<^verbatim>\<open>show_error_message("x")\<close> the only text \<^verbatim>\<open>paintEvent\<close> draws is
  \<open>x\<close>, and after a following \<^verbatim>\<open>show_message("y")\<close> it is \<open>y\<close> alone. In every
  mode the painter calls and the outcome of \<^verbatim>\<open>paintEvent\<close> depend on the payload of
  that mode only: outside \<open>MODE_INFO_PIXMAP\<close> they are the same whatever the pixmap
  attribute holds, and outside \<open>MODE_ERROR\<close> and \<open>MODE_INFO_TEXT\<close> they are the same
  whatever the message attribute holds.
\<close>

theorem render_reads_active_payload:
  "drawn_texts (painted (show_error_message (Some x) s)) = [Some x] \<and>
   drawn_texts (painted (show_message (Some y) (show_error_message (Some x) s))) = [Some y] \<and>
   (mode s \<noteq> MODE_INFO_PIXMAP \<longrightarrow>
      snd (paintEvent (s\<lparr>message_pixmap := p\<rparr>)) = snd (paintEvent s)) \<and>
   (mode s \<noteq> MODE_ERROR \<and> mode s \<noteq> MODE_INFO_TEXT \<longrightarrow>
      snd (paintEvent (s\<lparr>message := m\<rparr>)) = snd (paintEvent s))"
proof -
  have a: "drawn_texts (painted (show_error_message (Some x) s)) = [Some x]"
    by (rule painted_text_mode) (simp_all add: method_defs toolkit_defs)
  have b: "drawn_texts (painted (show_message (Some y) (show_error_message (Some x) s))) = [Some y]"
    by (rule painted_text_mode) (simp_all add: method_defs toolkit_defs)
  have c: "snd (paintEvent (s\<lparr>message_pixmap := p\<rparr>)) = snd (paintEvent s)"
    if "mode s \<noteq> MODE_INFO_PIXMAP"
    using that by (simp add: snd_paintEvent paint_mode_message_pixmap backdrop_def)
  have d: "snd (paintEvent (s\<lparr>message := m\<rparr>)) = snd (paintEvent s)"
    if "mode s \<noteq> MODE_ERROR \<and> mode s \<noteq> MODE_INFO_TEXT"
    using that by (simp add: snd_paintEvent paint_mode_message backdrop_def)
  from a b c d show ?thesis by blast
qed

theorem render_reads_active_payload_witness:
  "drawn_texts (painted (show_error_message (Some ''x'')
       (OverlayWidget_init (shown_parent (640, 480)) (100, 30) (64, 32)))) = [Some ''x''] \<and>
   drawn_texts (painted (show_message (Some ''y'') (show_error_message (Some ''x'')
       (OverlayWidget_init (shown_parent (640, 480)) (100, 30) (64, 32))))) = [Some ''y''] \<and>
   mode (show_message (Some ''y'') (OverlayWidget_init (shown_parent (640, 480)) (100, 30) (64, 32)))
     \<noteq> MODE_INFO_PIXMAP \<and>
   snd (paintEvent ((show_message (Some ''y'') (OverlayWidget_init (shown_parent (640, 480)) (100, 30) (64, 32)))
          \<lparr>message_pixmap := Some \<lparr>pixmap_source = ''stale'', pixmap_width = 8,
               pixmap_height = 8\<rparr>\<rparr>)) =
     snd (paintEvent (show_message (Some ''y'')
          (OverlayWidget_init (shown_parent (640, 480)) (100, 30) (64, 32)))) \<and>
   mode (start_spin (show_message (Some ''y'') (OverlayWidget_init (shown_parent (640, 480)) (100, 30) (64, 32))))
     \<noteq> MODE_ERROR \<and>
   mode (start_spin (show_message (Some ''y'') (OverlayWidget_init (shown_parent (640, 480)) (100, 30) (64, 32))))
     \<noteq> MODE_INFO_TEXT \<and>
   snd (paintEvent ((start_spin (show_message (Some ''y'')
          (OverlayWidget_init (shown_parent (640, 480)) (100, 30) (64, 32))))\<lparr>message := Some ''stale''\<rparr>)) =
     snd (paintEvent (start_spin (show_message (Some ''y'')
          (OverlayWidget_init (shown_parent (640, 480)) (100, 30) (64, 32)))))"
proof -
  have m1: "mode (show_message (Some ''y'') (OverlayWidget_init (shown_parent (640, 480)) (100, 30) (64, 32)))
     \<noteq> MODE_INFO_PIXMAP"
    by (simp add: method_defs toolkit_defs MODE_defs)
  have m2: "mode (start_spin (show_message (Some ''y'')
       (OverlayWidget_init (shown_parent (640, 480)) (100, 30) (64, 32)))) \<noteq> MODE_ERROR \<and>
     mode (start_spin (show_message (Some ''y'')
       (OverlayWidget_init (shown_parent (640, 480)) (100, 30) (64, 32)))) \<noteq> MODE_INFO_TEXT"
    by (simp add: method_defs toolkit_defs MODE_defs)
  show ?thesis
    using m1 m2
      render_reads_active_payload [of "''x''" "OverlayWidget_init (shown_parent (640, 480)) (100, 30) (64, 32)"
        "''y''"]
      render_reads_active_payload [of _
        "show_message (Some ''y'') (OverlayWidget_init (shown_parent (640, 480)) (100, 30) (64, 32))" _
        "Some \<lparr>pixmap_source = ''stale'', pixmap_width = 8, pixmap_height = 8\<rparr>"]
      render_reads_active_payload [of _
        "start_spin (show_message (Some ''y'') (OverlayWidget_init (shown_parent (640, 480)) (100, 30) (64, 32)))"
        _ _ "Some ''stale''"]
    by blast
qed

text \<open>
  C6: in every mode and every state \<^verbatim>\<open>paintEvent\<close> leaves the widget as it was, so
  the mode, the message, the message pixmap and the spin angle are unchanged; in
  \<open>MODE_OFF\<close> it makes no call on a painter at all.
\<close>

theorem paintEvent_frame:
  "fst (paintEvent s) = s \<and>
   mode (fst (paintEvent s)) = mode s \<and>
   message (fst (paintEvent s)) = message s \<and>
   message_pixmap (fst (paintEvent s)) = message_pixmap s \<and>
   spin_angle (fst (paintEvent s)) = spin_angle s \<and>
   painted (s\<lparr>mode := MODE_OFF\<rparr>) = []"
  by (simp add: paintEvent_state painted_def) (simp add: paintEvent_def)

text \<open>
  C7: \<^verbatim>\<open>on_animation\<close> adds 1 to the spin angle, going from 89 back to 0, and calls
  \<^verbatim>\<open>repaint\<close> once; and after every sequence of calls, timeouts, paint requests and
  parent events on a constructed widget the spin angle lies in \<open>[0, 90)\<close>.
\<close>

theorem on_animation_wraps:
  "spin_angle (on_animation s) = (if spin_angle s = 89 then 0 else spin_angle s + 1) \<and>
   repaints (on_animation s) = Suc (repaints s) \<and>
   0 \<le> spin_angle (run es (OverlayWidget_init p w i)) \<and>
   spin_angle (run es (OverlayWidget_init p w i)) < 90"
proof -
  have "reachable_invariant (run es (OverlayWidget_init p w i))"
    by (rule reachable_invariant_reached)
  then have "0 \<le> spin_angle (run es (OverlayWidget_init p w i)) \<and>
     spin_angle (run es (OverlayWidget_init p w i)) < 90"
    by (simp add: reachable_invariant_def)
  moreover have "spin_angle (on_animation s) = (if spin_angle s = 89 then 0 else spin_angle s + 1)"
    by (simp add: on_animation_def Let_def repaint_def)
  moreover have "repaints (on_animation s) = Suc (repaints s)"
    by (simp add: on_animation_def Let_def repaint_def)
  ultimately show ?thesis by simp
qed

text \<open>
  C8: in every state the widget can reach with the mode \<open>MODE_OFF\<close>, \<^verbatim>\<open>hide\<close>
  changes nothing at all; and from any state \<^verbatim>\<open>hide\<close> leaves the mode \<open>MODE_OFF\<close>,
  the timer stopped and the widget invisible, and a second \<^verbatim>\<open>hide\<close> changes nothing.
\<close>

theorem hide_idempotent:
  "(mode (run es (OverlayWidget_init p w i)) = MODE_OFF \<longrightarrow>
      hide (run es (OverlayWidget_init p w i)) = run es (OverlayWidget_init p w i)) \<and>
   mode (hide s) = MODE_OFF \<and> \<not> timer_active (hide s) \<and> \<not> visible (hide s) \<and>
   hide (hide s) = hide s"
proof -
  have "reachable_invariant (run es (OverlayWidget_init p w i))"
    by (rule reachable_invariant_reached)
  then have "mode (run es (OverlayWidget_init p w i)) = MODE_OFF \<longrightarrow>
      hide (run es (OverlayWidget_init p w i)) = run es (OverlayWidget_init p w i)"
    by (simp add: reachable_invariant_def hide_def toolkit_defs MODE_defs)
  moreover have "mode (hide s) = MODE_OFF \<and> \<not> timer_active (hide s) \<and> \<not> visible (hide s) \<and>
   hide (hide s) = hide s"
    by (simp add: hide_def toolkit_defs)
  ultimately show ?thesis by simp
qed

theorem hide_idempotent_witness:
  "mode (run [Call (ShowMessage (Some ''y'')), Call Hide]
       (OverlayWidget_init (shown_parent (640, 480)) (100, 30) (64, 32))) = MODE_OFF \<and>
   hide (run [Call (ShowMessage (Some ''y'')), Call Hide]
       (OverlayWidget_init (shown_parent (640, 480)) (100, 30) (64, 32))) =
     run [Call (ShowMessage (Some ''y'')), Call Hide]
       (OverlayWidget_init (shown_parent (640, 480)) (100, 30) (64, 32))"
proof -
  have m: "mode (run [Call (ShowMessage (Some ''y'')), Call Hide]
       (OverlayWidget_init (shown_parent (640, 480)) (100, 30) (64, 32))) = MODE_OFF"
    by (simp add: method_defs toolkit_defs)
  show ?thesis
    using m hide_idempotent [of "[Call (ShowMessage (Some ''y'')), Call Hide]"
        "shown_parent (640, 480)" "(100, 30)" "(64, 32)"]
    by blast
qed

text \<open>
  C9, as stated, fails: the start angle handed to \<^verbatim>\<open>drawArc\<close> is the spin angle times
  \<open>4 * 16\<close>. After \<^verbatim>\<open>start_spin\<close> and one timeout the spin angle is 1 and the arc
  starts at 64, not at 4.
\<close>

theorem arc_start_angle_counterexample:
  "map fst (drawn_arcs (painted (run [Call StartSpin, Timeout]
       (OverlayWidget_init (shown_parent (640, 480)) (100, 30) (64, 32))))) \<noteq>
   [spin_angle (run [Call StartSpin, Timeout]
       (OverlayWidget_init (shown_parent (640, 480)) (100, 30) (64, 32))) * 4]"
  by (simp add: OverlayWidget_init_def method_defs toolkit_defs timeout_def on_animation_def
        Let_def painted_def paintEvent_def paint_mode_def backdrop_def start_angle_def
        span_angle_def MODE_defs)

text \<open>
  C9, amended: in \<open>MODE_SPIN\<close> \<^verbatim>\<open>paintEvent\<close> draws one arc, whose start angle is
  the spin angle times \<open>4 * 16\<close> (4 degrees a step in the sixteenths of a degree
  \<^verbatim>\<open>drawArc\<close> takes) and whose span is the constant \<open>340 * 16\<close>, less than the
  full circle \<open>360 * 16\<close>.
\<close>

theorem arc_start_angle:
  "mode s = MODE_SPIN \<Longrightarrow>
   drawn_arcs (painted s) = [(spin_angle s * 4 * 16, 340 * 16)] \<and> 340 * 16 < full_circle"
  by (simp add: painted_def paintEvent_def paint_mode_def backdrop_def start_angle_def
        span_angle_def full_circle_def MODE_defs)

theorem arc_start_angle_witness:
  "mode (run [Call StartSpin, Timeout]
       (OverlayWidget_init (shown_parent (640, 480)) (100, 30) (64, 32))) = MODE_SPIN \<and>
   spin_angle (run [Call StartSpin, Timeout]
       (OverlayWidget_init (shown_parent (640, 480)) (100, 30) (64, 32))) = 1 \<and>
   drawn_arcs (painted (run [Call StartSpin, Timeout]
       (OverlayWidget_init (shown_parent (640, 480)) (100, 30) (64, 32)))) = [(64, 5440)] \<and>
   (5440 :: int) < full_circle"
proof -
  have m: "mode (run [Call StartSpin, Timeout]
       (OverlayWidget_init (shown_parent (640, 480)) (100, 30) (64, 32))) = MODE_SPIN"
    by (simp add: start_spin_def toolkit_defs timeout_def on_animation_def Let_def)
  have a: "spin_angle (run [Call StartSpin, Timeout]
       (OverlayWidget_init (shown_parent (640, 480)) (100, 30) (64, 32))) = 1"
    by (simp add: OverlayWidget_init_def start_spin_def toolkit_defs timeout_def
          on_animation_def Let_def)
  show ?thesis using m a arc_start_angle [OF m] by simp
qed

text \<open>
  C10: \<^verbatim>\<open>start_spin\<close> leaves the spin angle as it was. On a widget that has just been
  constructed the angle is 0; after a session of \<open>n\<close> timeouts and a \<^verbatim>\<open>hide\<close>, the
  next \<^verbatim>\<open>start_spin\<close> starts from \<open>n mod 90\<close>, where the first session stopped.
\<close>

theorem start_spin_keeps_angle:
  "spin_angle (start_spin s) = spin_angle s \<and>
   spin_angle (start_spin (OverlayWidget_init p w i)) = 0 \<and>
   spin_angle (start_spin (hide (ticks n (start_spin (OverlayWidget_init p w i))))) =
     int n mod 90"
proof -
  have k: "spin_angle (start_spin s') = spin_angle s'" for s'
    by (simp add: start_spin_def toolkit_defs)
  have z: "spin_angle (OverlayWidget_init p w i) = 0"
    by (simp add: OverlayWidget_init_def)
  have "spin_angle (ticks n (start_spin (OverlayWidget_init p w i))) =
      (spin_angle (start_spin (OverlayWidget_init p w i)) + int n) mod 90"
    by (rule spin_angle_ticks)
       (simp_all add: start_spin_def toolkit_defs OverlayWidget_init_def)
  then have "spin_angle (hide (ticks n (start_spin (OverlayWidget_init p w i)))) = int n mod 90"
    by (simp add: k z hide_def toolkit_defs)
  with k z show ?thesis by simp
qed

end
